theory Spec2Isabelle
  imports Main "HOL-Library.Word" "HOL-Library.Sublist"
begin

section \<open>Go strings and the parts of the standard library the package calls\<close>

text \<open>
  The package \<open>internal/config\<close> only ever looks at a Go string through functions that
  iterate over its runes (\<open>regexp\<close>, \<open>strings.TrimSpace\<close>, \<open>strings.ToUpper\<close>,
  \<open>strings.Map\<close>), compares it with a constant, or concatenates it with ASCII text.
  A string is therefore modelled by the sequence of runes that Go's UTF-8 decoding yields for
  it (one rune per character; an invalid byte decodes to U+FFFD). Lengths of strings in this
  theory count runes, as the regular expressions' repetition bounds do.
\<close>

type_synonym rune = nat
type_synonym gostring = "rune list"

definition str :: "string \<Rightarrow> gostring" where
  "str s = map of_char s"

text \<open>
  The Unicode tables of package \<open>unicode\<close> and the quoting of \<open>fmt\<close>'s verb \<open>%q\<close>
  (\<open>strconv.Quote\<close>) belong to the Go distribution, not to this repository. They are a
  parameter of the model. On ASCII the functions of package \<open>unicode\<close> are written out
  below, the tables are consulted beyond ASCII only.
\<close>

record golib =
  IsSpace_tab :: "rune \<Rightarrow> bool"
  IsLetter_tab :: "rune \<Rightarrow> bool"
  IsDigit_tab :: "rune \<Rightarrow> bool"
  ToUpper_tab :: "rune \<Rightarrow> rune"
  Quote :: "gostring \<Rightarrow> gostring"

definition unicode_IsSpace :: "golib \<Rightarrow> rune \<Rightarrow> bool" where
  "unicode_IsSpace L r =
     (if r < 128 then r = 9 \<or> r = 10 \<or> r = 11 \<or> r = 12 \<or> r = 13 \<or> r = 32
      else IsSpace_tab L r)"

definition unicode_IsLetter :: "golib \<Rightarrow> rune \<Rightarrow> bool" where
  "unicode_IsLetter L r =
     (if r < 128 then (65 \<le> r \<and> r \<le> 90) \<or> (97 \<le> r \<and> r \<le> 122)
      else IsLetter_tab L r)"

definition unicode_IsDigit :: "golib \<Rightarrow> rune \<Rightarrow> bool" where
  "unicode_IsDigit L r =
     (if r < 128 then 48 \<le> r \<and> r \<le> 57 else IsDigit_tab L r)"

definition unicode_ToUpper :: "golib \<Rightarrow> rune \<Rightarrow> rune" where
  "unicode_ToUpper L r =
     (if r < 128 then (if 97 \<le> r \<and> r \<le> 122 then r - 32 else r)
      else ToUpper_tab L r)"

text \<open>\<open>strings.TrimSpace\<close>: the leading, then the trailing white space is cut.\<close>

definition TrimSpace :: "golib \<Rightarrow> gostring \<Rightarrow> gostring" where
  "TrimSpace L s =
     rev (dropWhile (unicode_IsSpace L) (rev (dropWhile (unicode_IsSpace L) s)))"

text \<open>\<open>strings.ToUpper\<close>: every rune is mapped by \<open>unicode.ToUpper\<close>.\<close>

definition ToUpper :: "golib \<Rightarrow> gostring \<Rightarrow> gostring" where
  "ToUpper L s = map (unicode_ToUpper L) s"

text \<open>
  \<open>strings.Map\<close> applies the mapping to every rune. (It drops a rune whose image is
  negative; the mapping of \<open>SafeName\<close> has no negative image.)
\<close>

definition strings_Map :: "(rune \<Rightarrow> rune) \<Rightarrow> gostring \<Rightarrow> gostring" where
  "strings_Map f s = map f s"

text \<open>\<open>strings.Join\<close>.\<close>

fun Join :: "gostring list \<Rightarrow> gostring \<Rightarrow> gostring" where
  "Join [] sep = []"
| "Join [x] sep = x"
| "Join (x # y # ys) sep = x @ sep @ Join (y # ys) sep"

text \<open>
  \<open>(*big.Int).SetString(s, 10)\<close>: an optional sign, then one or more decimal digits and
  nothing else; \<open>None\<close> is the failed parse (\<open>nil, false\<close>).
\<close>

definition is_digit :: "rune \<Rightarrow> bool" where
  "is_digit r = (48 \<le> r \<and> r \<le> 57)"

definition nat_of_digits :: "gostring \<Rightarrow> nat" where
  "nat_of_digits ds = foldl (\<lambda>acc d. acc * 10 + (d - 48)) 0 ds"

definition scan_abs :: "gostring \<Rightarrow> nat option" where
  "scan_abs ds = (if ds = [] then None
                  else if list_all is_digit ds then Some (nat_of_digits ds) else None)"

definition big_SetString :: "gostring \<Rightarrow> int option" where
  "big_SetString s =
     (case s of
        [] \<Rightarrow> None
      | c # cs \<Rightarrow>
          if c = 45 then map_option (\<lambda>n. - int n) (scan_abs cs)
          else if c = 43 then map_option int (scan_abs cs)
          else map_option int (scan_abs s))"

section \<open>The configuration (config.go)\<close>

text \<open>\<open>AccessControlType\<close> is a string type; its three constants.\<close>

definition AccessOwnable :: gostring where "AccessOwnable = str ''ownable''"
definition AccessRoles :: gostring where "AccessRoles = str ''roles''"
definition AccessNone :: gostring where "AccessNone = str ''none''"

record TokenConfig =
  Name :: gostring
  Symbol :: gostring
  Decimals :: "8 word"
  InitialSupply :: gostring
  MaxSupply :: gostring
  Mintable :: bool
  Burnable :: bool
  Pausable :: bool
  Permit :: bool
  Snapshot :: bool
  Votes :: bool
  AccessControl :: gostring
  License :: gostring
  SolidityVersion :: gostring
  WithDeploy :: bool
  WithTest :: bool

subsection \<open>The derived lists\<close>

definition NeedsOwnable :: "TokenConfig \<Rightarrow> bool" where
  "NeedsOwnable c = (AccessControl c = AccessOwnable)"

definition NeedsRoles :: "TokenConfig \<Rightarrow> bool" where
  "NeedsRoles c = (AccessControl c = AccessRoles)"

definition HasAccessControl :: "TokenConfig \<Rightarrow> bool" where
  "HasAccessControl c = (AccessControl c \<noteq> AccessNone)"

definition ImportPaths :: "TokenConfig \<Rightarrow> gostring list" where
  "ImportPaths c =
    (let imports = [];
         imports = imports @ [str ''@openzeppelin/contracts/token/ERC20/ERC20.sol''];
         imports = (if Burnable c
           then imports @ [str ''@openzeppelin/contracts/token/ERC20/extensions/ERC20Burnable.sol'']
           else imports);
         imports = (if Pausable c
           then (imports @ [str ''@openzeppelin/contracts/token/ERC20/extensions/ERC20Pausable.sol''])
                  @ [str ''@openzeppelin/contracts/utils/Pausable.sol'']
           else imports);
         imports = (if Permit c
           then imports @ [str ''@openzeppelin/contracts/token/ERC20/extensions/ERC20Permit.sol'']
           else imports);
         imports = (if Snapshot c
           then imports @ [str ''@openzeppelin/contracts/token/ERC20/extensions/ERC20Snapshot.sol'']
           else imports);
         imports = (if Votes c
           then imports @ [str ''@openzeppelin/contracts/token/ERC20/extensions/ERC20Votes.sol'']
           else imports);
         imports = (if MaxSupply c \<noteq> []
           then imports @ [str ''@openzeppelin/contracts/token/ERC20/extensions/ERC20Capped.sol'']
           else imports);
         imports = (if NeedsOwnable c
           then imports @ [str ''@openzeppelin/contracts/access/Ownable.sol'']
           else imports);
         imports = (if NeedsRoles c
           then imports @ [str ''@openzeppelin/contracts/access/AccessControl.sol'']
           else imports)
     in imports)"

definition InheritanceList :: "TokenConfig \<Rightarrow> gostring list" where
  "InheritanceList c =
    (let list = [];
         list = (if MaxSupply c \<noteq> [] then list @ [str ''ERC20Capped''] else list);
         list = (if Burnable c then list @ [str ''ERC20Burnable''] else list);
         list = (if Pausable c then list @ [str ''ERC20Pausable''] else list);
         list = (if Permit c then list @ [str ''ERC20Permit''] else list);
         list = (if Snapshot c then list @ [str ''ERC20Snapshot''] else list);
         list = (if Votes c then list @ [str ''ERC20Votes''] else list);
         list = (if NeedsOwnable c then list @ [str ''Ownable''] else list);
         list = (if NeedsRoles c then list @ [str ''AccessControl''] else list)
     in list)"

subsection \<open>Validation\<close>

text \<open>
  The three regular expressions. Every class is a set of ASCII characters, \<open>^\<close> and
  \<open>$\<close> anchor the match at both ends of the text, so a string matches when its length
  is within the bounds and each of its characters is in the class.
\<close>

definition symbol_class :: "rune \<Rightarrow> bool" where
  "symbol_class r = ((65 \<le> r \<and> r \<le> 90) \<or> (48 \<le> r \<and> r \<le> 57))"

definition name_class :: "rune \<Rightarrow> bool" where
  "name_class r = ((65 \<le> r \<and> r \<le> 90) \<or> (97 \<le> r \<and> r \<le> 122) \<or> (48 \<le> r \<and> r \<le> 57)
                    \<or> r = 32 \<or> r = 95 \<or> r = 45)"

definition validSymbolRe :: "gostring \<Rightarrow> bool" where
  "validSymbolRe s = (1 \<le> length s \<and> length s \<le> 11 \<and> list_all symbol_class s)"

definition validNameRe :: "gostring \<Rightarrow> bool" where
  "validNameRe s = (1 \<le> length s \<and> length s \<le> 64 \<and> list_all name_class s)"

definition validDecimalNum :: "gostring \<Rightarrow> bool" where
  "validDecimalNum s = (1 \<le> length s \<and> list_all is_digit s)"

text \<open>\<open>validateSupplyString\<close>; \<open>None\<close> is the \<open>nil\<close> error.\<close>

definition validateSupplyString :: "golib \<Rightarrow> gostring \<Rightarrow> gostring option" where
  "validateSupplyString L s0 =
    (let s = TrimSpace L s0 in
     if \<not> validDecimalNum s then Some (Quote L s @ str '' is not a valid positive integer'')
     else (case big_SetString s of
             None \<Rightarrow> Some (Quote L s @ str '' cannot be parsed as an integer'')
           | Some n \<Rightarrow>
               if n < 0 then Some (str ''must be a non-negative integer'') else None))"

text \<open>
  \<open>Validate\<close> appends to \<open>errs\<close> block by block. Each block of the function body
  (they are headed by the comments \<open>Name\<close>, \<open>Symbol\<close>, \<open>Decimals\<close>,
  \<open>Initial supply\<close>, \<open>Max supply\<close>, \<open>Access control\<close>) is one definition here,
  from \<open>errs\<close> before the block to \<open>errs\<close> after it.
\<close>

definition check_Name :: "golib \<Rightarrow> TokenConfig \<Rightarrow> gostring list \<Rightarrow> gostring list" where
  "check_Name L c errs =
    (if TrimSpace L (Name c) = [] then errs @ [str ''token name is required'']
     else if \<not> validNameRe (Name c)
       then errs @ [str ''token name must be 1-64 alphanumeric characters (spaces, hyphens, underscores allowed)'']
     else errs)"

definition check_Symbol :: "golib \<Rightarrow> TokenConfig \<Rightarrow> gostring list \<Rightarrow> gostring list" where
  "check_Symbol L c errs =
    (if TrimSpace L (Symbol c) = [] then errs @ [str ''token symbol is required'']
     else if \<not> validSymbolRe (ToUpper L (Symbol c))
       then errs @ [str ''token symbol must be 1-11 uppercase letters/digits (e.g. MTK, USDC)'']
     else errs)"

definition check_Decimals :: "TokenConfig \<Rightarrow> gostring list \<Rightarrow> gostring list" where
  "check_Decimals c errs =
    (if 18 < Decimals c then errs @ [str ''decimals must be between 0 and 18''] else errs)"

definition check_InitialSupply :: "golib \<Rightarrow> TokenConfig \<Rightarrow> gostring list \<Rightarrow> gostring list" where
  "check_InitialSupply L c errs =
    (if InitialSupply c \<noteq> [] then
       (case validateSupplyString L (InitialSupply c) of
          Some err \<Rightarrow> errs @ [str ''initial supply: '' @ err]
        | None \<Rightarrow> errs)
     else errs)"

definition check_MaxSupply :: "golib \<Rightarrow> TokenConfig \<Rightarrow> gostring list \<Rightarrow> gostring list" where
  "check_MaxSupply L c errs =
    (if MaxSupply c \<noteq> [] then
       (let errs = (case validateSupplyString L (MaxSupply c) of
                      Some err \<Rightarrow> errs @ [str ''max supply: '' @ err]
                    | None \<Rightarrow> errs)
        in if InitialSupply c \<noteq> [] then
             (case (big_SetString (InitialSupply c), big_SetString (MaxSupply c)) of
                (Some initial, Some max') \<Rightarrow>
                  if initial > max' then errs @ [str ''initial supply cannot exceed max supply'']
                  else errs
              | _ \<Rightarrow> errs)
           else errs)
     else errs)"

text \<open>
  The message of the last block holds the three characters U+00E2, U+20AC, U+201D, as the
  source file has them.
\<close>

definition check_AccessControl ::
  "golib \<Rightarrow> TokenConfig \<Rightarrow> gostring list \<Rightarrow> TokenConfig \<times> gostring list" where
  "check_AccessControl L c errs =
    (if AccessControl c = AccessOwnable \<or> AccessControl c = AccessRoles
        \<or> AccessControl c = AccessNone then (c, errs)
     else if AccessControl c = [] then (c\<lparr>AccessControl := AccessOwnable\<rparr>, errs)
     else (c, errs @ [str ''invalid access control type '' @ Quote L (AccessControl c)
                      @ [32, 226, 8364, 8221] @ str '' must be: ownable, roles, or none'']))"

definition join_sep :: gostring where
  "join_sep = 10 # str ''  - ''"

text \<open>The value of \<open>errs\<close> when \<open>Validate\<close> reaches its last statement.\<close>

definition Validate_errs :: "golib \<Rightarrow> TokenConfig \<Rightarrow> gostring list" where
  "Validate_errs L c =
    (let errs = [];
         errs = check_Name L c errs;
         errs = check_Symbol L c errs;
         errs = check_Decimals c errs;
         errs = check_InitialSupply L c errs;
         errs = check_MaxSupply L c errs
     in snd (check_AccessControl L c errs))"

text \<open>
  \<open>Validate\<close>: the configuration the receiver points to after the call, and the error
  returned (\<open>None\<close> is \<open>nil\<close>, \<open>Some m\<close> the error of text \<open>m\<close>).
\<close>

definition Validate :: "golib \<Rightarrow> TokenConfig \<Rightarrow> TokenConfig \<times> gostring option" where
  "Validate L c0 =
    (let errs = [];
         errs = check_Name L c0 errs;
         errs = check_Symbol L c0 errs;
         errs = check_Decimals c0 errs;
         errs = check_InitialSupply L c0 errs;
         errs = check_MaxSupply L c0 errs;
         (c, errs) = check_AccessControl L c0 errs;
         c = (if Votes c \<and> \<not> Snapshot c then c\<lparr>Snapshot := True\<rparr> else c);
         c = (if License c = [] then c\<lparr>License := str ''MIT''\<rparr> else c);
         c = (if SolidityVersion c = [] then c\<lparr>SolidityVersion := str ''^0.8.24''\<rparr> else c)
     in (c, if 0 < length errs then Some (Join errs join_sep) else None))"

subsection \<open>File names\<close>

definition SafeName :: "golib \<Rightarrow> TokenConfig \<Rightarrow> gostring" where
  "SafeName L c =
    strings_Map (\<lambda>r. if unicode_IsLetter L r \<or> unicode_IsDigit L r then r else 95) (Name c)"

definition ContractFileName :: "golib \<Rightarrow> TokenConfig \<Rightarrow> gostring" where
  "ContractFileName L c = SafeName L c @ str ''.sol''"

section \<open>Notions of the claims\<close>

text \<open>The configuration the repository's tests start from (\<open>baseConfig()\<close>).\<close>

definition baseConfig :: TokenConfig where
  "baseConfig =
     \<lparr>Name = str ''TestToken'', Symbol = str ''TST'', Decimals = 18,
      InitialSupply = str ''1000000'', MaxSupply = [],
      Mintable = False, Burnable = False, Pausable = False, Permit = False,
      Snapshot = False, Votes = False, AccessControl = AccessOwnable,
      License = str ''MIT'', SolidityVersion = str ''^0.8.24'',
      WithDeploy = False, WithTest = False\<rparr>"

text \<open>The message of the comparison of the two supplies.\<close>

definition msg_exceeds :: gostring where
  "msg_exceeds = str ''initial supply cannot exceed max supply''"

section \<open>Auxiliary facts\<close>

lemma str_eq_iff: "str a = str b \<longleftrightarrow> a = b"
  unfolding str_def by (rule inj_map_eq_map) (rule inj_of_char)

lemma access_constants_distinct:
  "AccessOwnable \<noteq> AccessRoles" "AccessOwnable \<noteq> AccessNone" "AccessRoles \<noteq> AccessNone"
  "AccessOwnable \<noteq> []" "AccessRoles \<noteq> []" "AccessNone \<noteq> []"
  by (simp_all add: AccessOwnable_def AccessRoles_def AccessNone_def str_def)

lemma if_append: "(if b then xs @ ys else xs) = xs @ (if b then ys else [])"
  by simp

lemma check_Name_append: "check_Name L c errs = errs @ check_Name L c []"
  by (simp add: check_Name_def)

lemma check_Symbol_append: "check_Symbol L c errs = errs @ check_Symbol L c []"
  by (simp add: check_Symbol_def)

lemma check_Decimals_append: "check_Decimals c errs = errs @ check_Decimals c []"
  by (simp add: check_Decimals_def)

lemma check_InitialSupply_append:
  "check_InitialSupply L c errs = errs @ check_InitialSupply L c []"
  by (simp add: check_InitialSupply_def split: option.split)

lemma check_MaxSupply_append: "check_MaxSupply L c errs = errs @ check_MaxSupply L c []"
  by (simp add: check_MaxSupply_def Let_def split: option.split)

lemma check_AccessControl_append:
  "snd (check_AccessControl L c errs) = errs @ snd (check_AccessControl L c [])"
  by (simp add: check_AccessControl_def)

lemma check_AccessControl_config:
  "fst (check_AccessControl L c errs) =
     (if AccessControl c = [] then c\<lparr>AccessControl := AccessOwnable\<rparr> else c)"
  by (simp add: check_AccessControl_def access_constants_distinct)

lemma Validate_errs_blocks:
  "Validate_errs L c =
     check_Name L c [] @ check_Symbol L c [] @ check_Decimals c [] @
     check_InitialSupply L c [] @ check_MaxSupply L c [] @ snd (check_AccessControl L c [])"
  unfolding Validate_errs_def Let_def
  by (subst check_AccessControl_append, subst check_MaxSupply_append,
      subst check_InitialSupply_append, subst check_Decimals_append,
      subst check_Symbol_append) simp

lemma Validate_error:
  "snd (Validate L c) =
     (if Validate_errs L c = [] then None else Some (Join (Validate_errs L c) join_sep))"
  by (simp add: Validate_def Validate_errs_def Let_def split_beta)

lemma Validate_config:
  "fst (Validate L c) =
    (let c1 = (if AccessControl c = [] then c\<lparr>AccessControl := AccessOwnable\<rparr> else c);
         c2 = (if Votes c1 \<and> \<not> Snapshot c1 then c1\<lparr>Snapshot := True\<rparr> else c1);
         c3 = (if License c2 = [] then c2\<lparr>License := str ''MIT''\<rparr> else c2)
     in (if SolidityVersion c3 = [] then c3\<lparr>SolidityVersion := str ''^0.8.24''\<rparr> else c3))"
  by (simp add: Validate_def Let_def split_beta check_AccessControl_config)

lemma sublist_Join: "m \<in> set errs \<Longrightarrow> sublist m (Join errs sep)"
proof (induction errs sep rule: Join.induct)
  case (1 sep)
  then show ?case by simp
next
  case (2 x sep)
  then show ?case by simp
next
  case (3 x y ys sep)
  show ?case
  proof (cases "m = x")
    case True
    then show ?thesis by simp
  next
    case False
    with 3 have "sublist m (Join (y # ys) sep)" by simp
    then show ?thesis
      by (simp add: sublist_append)
  qed
qed

lemma big_SetString_digits:
  assumes "validDecimalNum s"
  shows "big_SetString s = Some (int (nat_of_digits s))"
proof -
  from assms obtain d ds where s: "s = d # ds" and d: "is_digit d" and all: "list_all is_digit s"
    by (cases s) (auto simp: validDecimalNum_def)
  from d have "d \<noteq> 45" "d \<noteq> 43" by (auto simp: is_digit_def)
  with s all show ?thesis
    by (simp add: big_SetString_def scan_abs_def)
qed

section \<open>The derived lists\<close>

text \<open>
  Claim C1. For every configuration, \<open>InheritanceList\<close> is, in this order: the capped
  entry exactly when \<open>MaxSupply\<close> is a non-empty string, then the burnable, pausable, permit,
  snapshot and votes entries, each present exactly when its flag is set, and last
  \<open>Ownable\<close> when the access control is \<open>ownable\<close>, \<open>AccessControl\<close> when it is
  \<open>roles\<close>, and nothing otherwise. The list starts with the capped entry exactly when
  \<open>MaxSupply\<close> is non-empty, and it never holds more than one access-control entry.
\<close>

theorem InheritanceList_order:
  "InheritanceList c =
     (if MaxSupply c \<noteq> [] then [str ''ERC20Capped''] else []) @
     (if Burnable c then [str ''ERC20Burnable''] else []) @
     (if Pausable c then [str ''ERC20Pausable''] else []) @
     (if Permit c then [str ''ERC20Permit''] else []) @
     (if Snapshot c then [str ''ERC20Snapshot''] else []) @
     (if Votes c then [str ''ERC20Votes''] else []) @
     (if AccessControl c = AccessOwnable then [str ''Ownable'']
      else if AccessControl c = AccessRoles then [str ''AccessControl'']
      else [])
   \<and> (take 1 (InheritanceList c) = [str ''ERC20Capped'']) = (MaxSupply c \<noteq> [])
   \<and> length (filter (\<lambda>e. e = str ''Ownable'' \<or> e = str ''AccessControl'')
         (InheritanceList c)) \<le> 1"
proof -
  have closed: "InheritanceList c =
     (if MaxSupply c \<noteq> [] then [str ''ERC20Capped''] else []) @
     (if Burnable c then [str ''ERC20Burnable''] else []) @
     (if Pausable c then [str ''ERC20Pausable''] else []) @
     (if Permit c then [str ''ERC20Permit''] else []) @
     (if Snapshot c then [str ''ERC20Snapshot''] else []) @
     (if Votes c then [str ''ERC20Votes''] else []) @
     (if AccessControl c = AccessOwnable then [str ''Ownable'']
      else if AccessControl c = AccessRoles then [str ''AccessControl'']
      else [])"
    by (simp add: InheritanceList_def NeedsOwnable_def NeedsRoles_def
        access_constants_distinct if_append)
  have first: "(take 1 (InheritanceList c) = [str ''ERC20Capped'']) = (MaxSupply c \<noteq> [])"
    unfolding closed by (simp add: str_eq_iff)
  have one: "length (filter (\<lambda>e. e = str ''Ownable'' \<or> e = str ''AccessControl'')
               (InheritanceList c)) \<le> 1"
    unfolding closed by (simp add: str_eq_iff)
  show ?thesis
    by (intro conjI) (rule closed, rule first, rule one)
qed

text \<open>
  Claim C2. For every configuration, \<open>ImportPaths\<close> is the base ERC20 import followed, in
  this order, by the burnable import if \<open>Burnable\<close>, the two pausable imports (the
  extension, then the pause utility) if \<open>Pausable\<close>, the permit import if \<open>Permit\<close>, the
  snapshot import if \<open>Snapshot\<close>, the votes import if \<open>Votes\<close>, the capped import exactly
  when \<open>MaxSupply\<close> is a non-empty string, and last the \<open>Ownable\<close> import when the access
  control is \<open>ownable\<close>, the \<open>AccessControl\<close> import when it is \<open>roles\<close>, and neither
  otherwise. The base import is the first element and occurs exactly once.
\<close>

theorem ImportPaths_order:
  "ImportPaths c =
     [str ''@openzeppelin/contracts/token/ERC20/ERC20.sol''] @
     (if Burnable c
      then [str ''@openzeppelin/contracts/token/ERC20/extensions/ERC20Burnable.sol''] else []) @
     (if Pausable c
      then [str ''@openzeppelin/contracts/token/ERC20/extensions/ERC20Pausable.sol'',
            str ''@openzeppelin/contracts/utils/Pausable.sol''] else []) @
     (if Permit c
      then [str ''@openzeppelin/contracts/token/ERC20/extensions/ERC20Permit.sol''] else []) @
     (if Snapshot c
      then [str ''@openzeppelin/contracts/token/ERC20/extensions/ERC20Snapshot.sol''] else []) @
     (if Votes c
      then [str ''@openzeppelin/contracts/token/ERC20/extensions/ERC20Votes.sol''] else []) @
     (if MaxSupply c \<noteq> []
      then [str ''@openzeppelin/contracts/token/ERC20/extensions/ERC20Capped.sol''] else []) @
     (if AccessControl c = AccessOwnable
      then [str ''@openzeppelin/contracts/access/Ownable.sol'']
      else if AccessControl c = AccessRoles
      then [str ''@openzeppelin/contracts/access/AccessControl.sol'']
      else [])
   \<and> take 1 (ImportPaths c) = [str ''@openzeppelin/contracts/token/ERC20/ERC20.sol'']
   \<and> count_list (ImportPaths c) (str ''@openzeppelin/contracts/token/ERC20/ERC20.sol'') = 1"
proof -
  have closed: "ImportPaths c =
     [str ''@openzeppelin/contracts/token/ERC20/ERC20.sol''] @
     (if Burnable c
      then [str ''@openzeppelin/contracts/token/ERC20/extensions/ERC20Burnable.sol''] else []) @
     (if Pausable c
      then [str ''@openzeppelin/contracts/token/ERC20/extensions/ERC20Pausable.sol'',
            str ''@openzeppelin/contracts/utils/Pausable.sol''] else []) @
     (if Permit c
      then [str ''@openzeppelin/contracts/token/ERC20/extensions/ERC20Permit.sol''] else []) @
     (if Snapshot c
      then [str ''@openzeppelin/contracts/token/ERC20/extensions/ERC20Snapshot.sol''] else []) @
     (if Votes c
      then [str ''@openzeppelin/contracts/token/ERC20/extensions/ERC20Votes.sol''] else []) @
     (if MaxSupply c \<noteq> []
      then [str ''@openzeppelin/contracts/token/ERC20/extensions/ERC20Capped.sol''] else []) @
     (if AccessControl c = AccessOwnable
      then [str ''@openzeppelin/contracts/access/Ownable.sol'']
      else if AccessControl c = AccessRoles
      then [str ''@openzeppelin/contracts/access/AccessControl.sol'']
      else [])"
    by (simp add: ImportPaths_def NeedsOwnable_def NeedsRoles_def
        access_constants_distinct if_append)
  have first: "take 1 (ImportPaths c) = [str ''@openzeppelin/contracts/token/ERC20/ERC20.sol'']"
    unfolding closed by simp
  have once:
    "count_list (ImportPaths c) (str ''@openzeppelin/contracts/token/ERC20/ERC20.sol'') = 1"
    unfolding closed by (simp add: str_eq_iff)
  show ?thesis
    by (intro conjI) (rule closed, rule first, rule once)
qed

section \<open>Validation\<close>

subsection \<open>The comparison of the two supplies\<close>

lemma exceeds_not_Name: "msg_exceeds \<notin> set (check_Name L c [])"
  by (simp add: check_Name_def msg_exceeds_def str_eq_iff)

lemma exceeds_not_Symbol: "msg_exceeds \<notin> set (check_Symbol L c [])"
  by (simp add: check_Symbol_def msg_exceeds_def str_eq_iff)

lemma exceeds_not_Decimals: "msg_exceeds \<notin> set (check_Decimals c [])"
  by (simp add: check_Decimals_def msg_exceeds_def str_eq_iff)

lemma exceeds_not_InitialSupply: "msg_exceeds \<notin> set (check_InitialSupply L c [])"
  by (cases "InitialSupply c = []"; cases "validateSupplyString L (InitialSupply c)")
     (simp_all add: check_InitialSupply_def msg_exceeds_def str_def)

lemma exceeds_not_AccessControl: "msg_exceeds \<notin> set (snd (check_AccessControl L c []))"
  by (simp add: check_AccessControl_def msg_exceeds_def str_def)

lemma exceeds_iff_MaxSupply:
  "msg_exceeds \<in> set (check_MaxSupply L c []) \<longleftrightarrow>
     MaxSupply c \<noteq> [] \<and> InitialSupply c \<noteq> [] \<and>
     (\<exists>i m. big_SetString (InitialSupply c) = Some i \<and> big_SetString (MaxSupply c) = Some m
        \<and> m < i)"
  by (cases "big_SetString (InitialSupply c)"; cases "big_SetString (MaxSupply c)";
      cases "validateSupplyString L (MaxSupply c)")
     (simp_all add: check_MaxSupply_def msg_exceeds_def str_def Let_def cong: if_cong)

lemma exceeds_iff:
  "msg_exceeds \<in> set (Validate_errs L c) \<longleftrightarrow>
     MaxSupply c \<noteq> [] \<and> InitialSupply c \<noteq> [] \<and>
     (\<exists>i m. big_SetString (InitialSupply c) = Some i \<and> big_SetString (MaxSupply c) = Some m
        \<and> m < i)"
  by (simp add: Validate_errs_blocks exceeds_not_Name exceeds_not_Symbol exceeds_not_Decimals
      exceeds_not_InitialSupply exceeds_not_AccessControl exceeds_iff_MaxSupply)

text \<open>
  Claim C3. Let \<open>InitialSupply\<close> and \<open>MaxSupply\<close> both be non-empty strings of decimal
  digits, of any length, with the numbers they denote compared as unbounded integers. If the
  initial supply is greater than the maximum supply, \<open>Validate\<close> fails, the message
  \<open>initial supply cannot exceed max supply\<close> is one of its messages and the text of the
  returned error contains it. If the initial supply is at most the maximum supply, that
  message is none of the messages of \<open>Validate\<close>.
\<close>

theorem Validate_exceeds_max_supply:
  assumes "validDecimalNum (InitialSupply c)" and "validDecimalNum (MaxSupply c)"
  shows "(nat_of_digits (MaxSupply c) < nat_of_digits (InitialSupply c) \<longrightarrow>
            msg_exceeds \<in> set (Validate_errs L c) \<and>
            (\<exists>e. snd (Validate L c) = Some e \<and> sublist msg_exceeds e))
       \<and> (nat_of_digits (InitialSupply c) \<le> nat_of_digits (MaxSupply c) \<longrightarrow>
            msg_exceeds \<notin> set (Validate_errs L c))"
proof -
  from assms have ne: "InitialSupply c \<noteq> []" "MaxSupply c \<noteq> []"
    by (auto simp: validDecimalNum_def)
  have iff: "msg_exceeds \<in> set (Validate_errs L c) \<longleftrightarrow>
               nat_of_digits (MaxSupply c) < nat_of_digits (InitialSupply c)"
    using ne by (simp add: exceeds_iff big_SetString_digits [OF assms(1)]
        big_SetString_digits [OF assms(2)])
  have "\<exists>e. snd (Validate L c) = Some e \<and> sublist msg_exceeds e"
    if "msg_exceeds \<in> set (Validate_errs L c)"
  proof -
    from that have "Validate_errs L c \<noteq> []" by auto
    then have "snd (Validate L c) = Some (Join (Validate_errs L c) join_sep)"
      by (simp add: Validate_error)
    with sublist_Join [OF that] show ?thesis by simp
  qed
  with iff show ?thesis by auto
qed

theorem Validate_exceeds_max_supply_witness:
  "validDecimalNum (str ''18446744073709551617'')
   \<and> validDecimalNum (str ''18446744073709551616'')
   \<and> nat_of_digits (str ''18446744073709551617'') = 18446744073709551617
   \<and> nat_of_digits (str ''18446744073709551616'') = 18446744073709551616
   \<and> (\<forall>L. \<exists>e. snd (Validate L (baseConfig\<lparr>InitialSupply := str ''18446744073709551617'',
                                              MaxSupply := str ''18446744073709551616''\<rparr>)) = Some e
            \<and> sublist msg_exceeds e)
   \<and> (\<forall>L. msg_exceeds \<notin> set (Validate_errs L
            (baseConfig\<lparr>InitialSupply := str ''18446744073709551616'',
                         MaxSupply := str ''18446744073709551616''\<rparr>)))"
proof -
  have d1: "validDecimalNum (str ''18446744073709551617'')"
    and d2: "validDecimalNum (str ''18446744073709551616'')"
    by (simp_all add: validDecimalNum_def is_digit_def str_def)
  have v1: "nat_of_digits (str ''18446744073709551617'') = 18446744073709551617"
    and v2: "nat_of_digits (str ''18446744073709551616'') = 18446744073709551616"
    by (simp_all add: nat_of_digits_def str_def)
  show ?thesis
    using Validate_exceeds_max_supply
            [of "baseConfig\<lparr>InitialSupply := str ''18446744073709551617'',
                             MaxSupply := str ''18446744073709551616''\<rparr>"]
          Validate_exceeds_max_supply
            [of "baseConfig\<lparr>InitialSupply := str ''18446744073709551616'',
                             MaxSupply := str ''18446744073709551616''\<rparr>"]
    by (simp add: d1 d2 v1 v2)
qed

subsection \<open>Normalization\<close>

lemma Validate_config_updates:
  "fst (Validate L c) =
     c\<lparr>AccessControl := (if AccessControl c = [] then AccessOwnable else AccessControl c),
       Snapshot := (Snapshot c \<or> Votes c),
       License := (if License c = [] then str ''MIT'' else License c),
       SolidityVersion :=
         (if SolidityVersion c = [] then str ''^0.8.24'' else SolidityVersion c)\<rparr>"
  by (cases "AccessControl c = []"; cases "Votes c"; cases "Snapshot c";
      cases "License c = []"; cases "SolidityVersion c = []")
     (simp_all add: Validate_config Let_def)

text \<open>
  Claim C6. For every configuration, whatever error \<open>Validate\<close> returns, the configuration
  after the call has the defaults applied: the access control is \<open>ownable\<close> if it was
  empty and is unchanged otherwise, the license is \<open>MIT\<close> if it was empty, the Solidity
  version is \<open>^0.8.24\<close> if it was empty, and \<open>Snapshot\<close> is set if it was set or
  \<open>Votes\<close> is set (\<open>Votes\<close> itself is unchanged).
\<close>

theorem Validate_normalizes:
  "AccessControl (fst (Validate L c)) =
     (if AccessControl c = [] then AccessOwnable else AccessControl c)
   \<and> License (fst (Validate L c)) = (if License c = [] then str ''MIT'' else License c)
   \<and> SolidityVersion (fst (Validate L c)) =
       (if SolidityVersion c = [] then str ''^0.8.24'' else SolidityVersion c)
   \<and> Snapshot (fst (Validate L c)) = (Snapshot c \<or> Votes c)
   \<and> Votes (fst (Validate L c)) = Votes c"
  by (simp add: Validate_config_updates)

text \<open>
  An instance where \<open>Validate\<close> fails (the name is empty) and the defaults are applied all
  the same.
\<close>

lemma defaults_applied_on_failure:
  "snd (Validate L (baseConfig\<lparr>Name := [], Votes := True, AccessControl := [],
                               License := [], SolidityVersion := []\<rparr>)) \<noteq> None
   \<and> fst (Validate L (baseConfig\<lparr>Name := [], Votes := True, AccessControl := [],
                               License := [], SolidityVersion := []\<rparr>))
       = baseConfig\<lparr>Name := [], Snapshot := True, Votes := True\<rparr>"
proof -
  have "check_Name L (baseConfig\<lparr>Name := [], Votes := True, AccessControl := [],
                               License := [], SolidityVersion := []\<rparr>) [] \<noteq> []"
    by (simp add: check_Name_def TrimSpace_def)
  then show ?thesis
    by (simp add: Validate_error Validate_errs_blocks Validate_config_updates baseConfig_def)
qed

text \<open>
  Claim C10. For every configuration, whatever error \<open>Validate\<close> returns, the fields
  \<open>Name\<close>, \<open>Symbol\<close>, \<open>Decimals\<close>, \<open>InitialSupply\<close>, \<open>MaxSupply\<close>, \<open>Mintable\<close>,
  \<open>Burnable\<close>, \<open>Pausable\<close>, \<open>Permit\<close>, \<open>Votes\<close>, \<open>WithDeploy\<close> and \<open>WithTest\<close> are
  the same after the call as before: only \<open>AccessControl\<close>, \<open>Snapshot\<close>, \<open>License\<close> and
  \<open>SolidityVersion\<close> can change.
\<close>

theorem Validate_frame:
  "Name (fst (Validate L c)) = Name c
   \<and> Symbol (fst (Validate L c)) = Symbol c
   \<and> Decimals (fst (Validate L c)) = Decimals c
   \<and> InitialSupply (fst (Validate L c)) = InitialSupply c
   \<and> MaxSupply (fst (Validate L c)) = MaxSupply c
   \<and> Mintable (fst (Validate L c)) = Mintable c
   \<and> Burnable (fst (Validate L c)) = Burnable c
   \<and> Pausable (fst (Validate L c)) = Pausable c
   \<and> Permit (fst (Validate L c)) = Permit c
   \<and> Votes (fst (Validate L c)) = Votes c
   \<and> WithDeploy (fst (Validate L c)) = WithDeploy c
   \<and> WithTest (fst (Validate L c)) = WithTest c"
  by (simp add: Validate_config_updates)

subsection \<open>Votes, snapshots and a second validation\<close>

lemma Validate_errs_fields:
  assumes "Name c' = Name c" "Symbol c' = Symbol c" "Decimals c' = Decimals c"
    "InitialSupply c' = InitialSupply c" "MaxSupply c' = MaxSupply c"
    "AccessControl c' = AccessControl c \<or> (AccessControl c = [] \<and> AccessControl c' = AccessOwnable)"
  shows "Validate_errs L c' = Validate_errs L c"
proof -
  have "snd (check_AccessControl L c' []) = snd (check_AccessControl L c [])"
    using assms(6) by (auto simp: check_AccessControl_def access_constants_distinct)
  with assms(1-5) show ?thesis
    by (simp add: Validate_errs_blocks check_Name_def check_Symbol_def check_Decimals_def
        check_InitialSupply_def check_MaxSupply_def)
qed

lemma Validate_idempotent: "Validate L (fst (Validate L c)) = Validate L c"
proof -
  let ?c' = "fst (Validate L c)"
  have errs: "Validate_errs L ?c' = Validate_errs L c"
    by (rule Validate_errs_fields) (simp_all add: Validate_config_updates)
  have "fst (Validate L ?c') = ?c'"
    by (subst Validate_config_updates [of L ?c'])
       (simp add: Validate_config_updates access_constants_distinct str_def)
  moreover have "snd (Validate L ?c') = snd (Validate L c)"
    by (simp only: Validate_error errs)
  ultimately show ?thesis
    by (simp add: prod_eq_iff)
qed

text \<open>
  Claim C7. For every configuration with \<open>Votes\<close> set and \<open>Snapshot\<close> not set,
  \<open>Validate\<close> sets \<open>Snapshot\<close> and reports nothing for it: its result is the result for
  the same configuration with \<open>Snapshot\<close> already set. And when \<open>Validate\<close> has returned
  no error, a second \<open>Validate\<close> on the configuration it produced changes no field and
  returns no error again.
\<close>

theorem Validate_votes_snapshot:
  "(Votes c \<and> \<not> Snapshot c \<longrightarrow>
      Snapshot (fst (Validate L c)) \<and> Validate L c = Validate L (c\<lparr>Snapshot := True\<rparr>))
   \<and> (snd (Validate L c) = None \<longrightarrow>
      Validate L (fst (Validate L c)) = (fst (Validate L c), None))"
proof -
  have "Validate L c = Validate L (c\<lparr>Snapshot := True\<rparr>)" if "Votes c"
  proof -
    have "Validate_errs L (c\<lparr>Snapshot := True\<rparr>) = Validate_errs L c"
      by (rule Validate_errs_fields) simp_all
    then have "snd (Validate L (c\<lparr>Snapshot := True\<rparr>)) = snd (Validate L c)"
      by (simp only: Validate_error)
    moreover have "fst (Validate L (c\<lparr>Snapshot := True\<rparr>)) = fst (Validate L c)"
      using that by (simp add: Validate_config_updates)
    ultimately show ?thesis
      by (simp add: prod_eq_iff)
  qed
  moreover have "Snapshot (fst (Validate L c))" if "Votes c"
    using that by (simp add: Validate_config_updates)
  moreover have "Validate L (fst (Validate L c)) = (fst (Validate L c), None)"
    if "snd (Validate L c) = None"
    using that Validate_idempotent [of L c] by (simp add: prod_eq_iff)
  ultimately show ?thesis by blast
qed

theorem Validate_votes_snapshot_witness:
  "Votes (baseConfig\<lparr>Votes := True\<rparr>) \<and> \<not> Snapshot (baseConfig\<lparr>Votes := True\<rparr>)
   \<and> (\<forall>L. snd (Validate L (baseConfig\<lparr>Votes := True\<rparr>)) = None
         \<and> Snapshot (fst (Validate L (baseConfig\<lparr>Votes := True\<rparr>)))
         \<and> Validate L (fst (Validate L (baseConfig\<lparr>Votes := True\<rparr>)))
             = (fst (Validate L (baseConfig\<lparr>Votes := True\<rparr>)), None))"
proof -
  have ok: "snd (Validate L (baseConfig\<lparr>Votes := True\<rparr>)) = None" for L
    by (simp add: Validate_error Validate_errs_blocks check_Name_def check_Symbol_def
        check_Decimals_def check_InitialSupply_def check_MaxSupply_def check_AccessControl_def
        baseConfig_def TrimSpace_def unicode_IsSpace_def validNameRe_def name_class_def
        validSymbolRe_def symbol_class_def ToUpper_def unicode_ToUpper_def
        validateSupplyString_def validDecimalNum_def is_digit_def big_SetString_def
        scan_abs_def str_def)
  have flags: "Votes (baseConfig\<lparr>Votes := True\<rparr>)" "\<not> Snapshot (baseConfig\<lparr>Votes := True\<rparr>)"
    by (simp_all add: baseConfig_def)
  have "Snapshot (fst (Validate L (baseConfig\<lparr>Votes := True\<rparr>)))
        \<and> Validate L (fst (Validate L (baseConfig\<lparr>Votes := True\<rparr>)))
            = (fst (Validate L (baseConfig\<lparr>Votes := True\<rparr>)), None)" for L
    using Validate_votes_snapshot [of "baseConfig\<lparr>Votes := True\<rparr>" L] ok [of L] flags
    by blast
  with ok flags show ?thesis by blast
qed

subsection \<open>Evaluation on concrete configurations\<close>

lemmas eval_defs =
  Validate_error Validate_errs_blocks Validate_config_updates
  check_Name_def check_Symbol_def
        check_Decimals_def check_InitialSupply_def check_MaxSupply_def check_AccessControl_def
        baseConfig_def TrimSpace_def unicode_IsSpace_def validNameRe_def name_class_def
        validSymbolRe_def symbol_class_def ToUpper_def unicode_ToUpper_def
        validateSupplyString_def validDecimalNum_def is_digit_def big_SetString_def
        scan_abs_def nat_of_digits_def str_def

subsection \<open>The symbol\<close>

text \<open>A symbol that matches the pattern \<open>^[A-Z0-9]{1,11}$\<close> passes the block of the symbol.\<close>

lemma symbol_class_plain:
  "symbol_class r \<Longrightarrow> \<not> unicode_IsSpace L r \<and> unicode_ToUpper L r = r"
  by (auto simp: symbol_class_def unicode_IsSpace_def unicode_ToUpper_def)

lemma dropWhile_none: "\<forall>x \<in> set xs. \<not> P x \<Longrightarrow> dropWhile P xs = xs"
  by (cases xs) simp_all

lemma matching_symbol_accepted:
  assumes "validSymbolRe (Symbol c)"
  shows "check_Symbol L c errs = errs"
proof -
  from assms have ne: "Symbol c \<noteq> []" and cls: "list_all symbol_class (Symbol c)"
    by (auto simp: validSymbolRe_def)
  from cls have nosp: "\<forall>r \<in> set (Symbol c). \<not> unicode_IsSpace L r"
    and up: "\<forall>r \<in> set (Symbol c). unicode_ToUpper L r = r"
    by (auto simp: list_all_iff symbol_class_plain)
  from nosp have "dropWhile (unicode_IsSpace L) (Symbol c) = Symbol c"
    by (rule dropWhile_none)
  moreover from nosp have "dropWhile (unicode_IsSpace L) (rev (Symbol c)) = rev (Symbol c)"
    by (intro dropWhile_none) simp
  ultimately have "TrimSpace L (Symbol c) = Symbol c"
    by (simp add: TrimSpace_def)
  moreover from up have "ToUpper L (Symbol c) = Symbol c"
    by (simp add: ToUpper_def map_idI)
  ultimately show ?thesis
    using assms ne by (simp add: check_Symbol_def)
qed

text \<open>
  Claim C5 asks for a symbol error for every non-empty symbol that does not match
  \<open>^[A-Z0-9]{1,11}$\<close>. The symbol \<open>mtk\<close> does not match, and \<open>Validate\<close> accepts it
  (the block matches the upper-cased symbol): on the configuration of the repository's tests
  with this symbol it changes nothing and returns no error, where the test
  \<open>TestTokenConfig_Validate_InvalidSymbol\<close> (case \<open>lowercase\<close>) requires an error.
\<close>

theorem Validate_accepts_lowercase_symbol:
  "\<not> validSymbolRe (str ''mtk'')
   \<and> Validate L (baseConfig\<lparr>Symbol := str ''mtk''\<rparr>) = (baseConfig\<lparr>Symbol := str ''mtk''\<rparr>, None)"
  by (simp add: prod_eq_iff eval_defs)

subsection \<open>Accumulation of the messages\<close>

text \<open>
  The messages of \<open>Validate\<close> are the messages of its blocks, one block after the other
  (\<open>Validate_errs_blocks\<close>), and the text of the error is the first message followed by
  the others, each behind the separator.
\<close>

lemma Join_concat: "Join (m # ms) sep = m @ concat (map ((@) sep) ms)"
  by (induction ms arbitrary: m) simp_all

lemma Validate_error_text:
  "snd (Validate L c) =
     (case Validate_errs L c of
        [] \<Rightarrow> None
      | m # ms \<Rightarrow> Some (m @ concat (map ((@) join_sep) ms)))"
  by (simp add: Validate_error Join_concat split: list.split)

text \<open>
  An instance: a configuration with a blank name and symbol, 19 decimals, signed supplies of
  which the initial one is the greater, and an unknown access control gets seven messages,
  in the order of the fields.
\<close>

lemma Validate_reports_every_violation:
  "Validate_errs L
     \<lparr>Name = [], Symbol = [], Decimals = 19,
      InitialSupply = str ''+9'', MaxSupply = str ''+1'',
      Mintable = False, Burnable = False, Pausable = False, Permit = False,
      Snapshot = False, Votes = False, AccessControl = str ''superadmin'',
      License = [], SolidityVersion = [],
      WithDeploy = False, WithTest = False\<rparr>
   = [str ''token name is required'',
      str ''token symbol is required'',
      str ''decimals must be between 0 and 18'',
      str ''initial supply: '' @ Quote L (str ''+9'') @ str '' is not a valid positive integer'',
      str ''max supply: '' @ Quote L (str ''+1'') @ str '' is not a valid positive integer'',
      str ''initial supply cannot exceed max supply'',
      str ''invalid access control type '' @ Quote L (str ''superadmin'')
        @ [32, 226, 8364, 8221] @ str '' must be: ownable, roles, or none'']"
  by (simp add: Validate_errs_blocks check_Name_def check_Symbol_def
        check_Decimals_def check_InitialSupply_def check_MaxSupply_def check_AccessControl_def
        TrimSpace_def unicode_IsSpace_def
        validateSupplyString_def validDecimalNum_def is_digit_def big_SetString_def
        scan_abs_def nat_of_digits_def AccessOwnable_def AccessRoles_def AccessNone_def str_def)

text \<open>
  Claim C4 says that every violated rule contributes one message, and that the error carries
  all of them in the order name, symbol, decimals, initial supply, maximum supply, access
  control. The configuration of the repository's tests with the symbol \<open>mtk\<close> and 19
  decimals violates two rules: the symbol does not match \<open>^[A-Z0-9]{1,11}$\<close>, and the
  decimals are above 18. \<open>Validate\<close> has one message for it, the one of the decimals, and
  the error is that message alone: the block of the symbol matches the upper-cased symbol
  and adds nothing.
\<close>

theorem Validate_omits_symbol_message:
  "\<not> validSymbolRe (Symbol (baseConfig\<lparr>Symbol := str ''mtk'', Decimals := 19\<rparr>))
   \<and> 18 < Decimals (baseConfig\<lparr>Symbol := str ''mtk'', Decimals := 19\<rparr>)
   \<and> Validate_errs L (baseConfig\<lparr>Symbol := str ''mtk'', Decimals := 19\<rparr>)
       = [str ''decimals must be between 0 and 18'']
   \<and> snd (Validate L (baseConfig\<lparr>Symbol := str ''mtk'', Decimals := 19\<rparr>))
       = Some (str ''decimals must be between 0 and 18'')"
  by (simp add: eval_defs)

subsection \<open>Supplies with white space around the digits\<close>

text \<open>
  \<open>SetString\<close> fails on every string that \<open>TrimSpace\<close> changes, so the comparison of the
  supplies is skipped as soon as one of them has white space at an end.
\<close>

lemma space_not_digit_or_sign:
  "unicode_IsSpace L r \<Longrightarrow> \<not> is_digit r \<and> r \<noteq> 45 \<and> r \<noteq> 43"
  by (auto simp: unicode_IsSpace_def is_digit_def split: if_splits)

lemma TrimSpace_changes:
  assumes "TrimSpace L s \<noteq> s"
  shows "s \<noteq> [] \<and> (unicode_IsSpace L (hd s) \<or> unicode_IsSpace L (last s))"
proof (rule ccontr)
  assume "\<not> ?thesis"
  then consider "s = []" | "s \<noteq> []" "\<not> unicode_IsSpace L (hd s)" "\<not> unicode_IsSpace L (last s)"
    by blast
  then have "TrimSpace L s = s"
  proof cases
    case 1
    then show ?thesis by (simp add: TrimSpace_def)
  next
    case 2
    from 2(1,2) have a: "dropWhile (unicode_IsSpace L) s = s"
      by (cases s) simp_all
    from 2(1,3) have "dropWhile (unicode_IsSpace L) (rev s) = rev s"
      by (cases "rev s") (simp_all add: hd_rev [symmetric])
    with a show ?thesis by (simp add: TrimSpace_def)
  qed
  with assms show False by contradiction
qed

lemma big_SetString_untrimmed:
  assumes "TrimSpace L s \<noteq> s"
  shows "big_SetString s = None"
proof -
  from TrimSpace_changes [OF assms] obtain c cs where s: "s = c # cs"
    and sp: "unicode_IsSpace L c \<or> unicode_IsSpace L (last (c # cs))"
    by (cases s) auto
  from sp show ?thesis
  proof
    assume "unicode_IsSpace L c"
    from space_not_digit_or_sign [OF this] show ?thesis
      by (simp add: s big_SetString_def scan_abs_def)
  next
    assume l: "unicode_IsSpace L (last (c # cs))"
    from space_not_digit_or_sign [OF this] have nd: "\<not> is_digit (last (c # cs))" by simp
    then have "\<not> list_all is_digit (c # cs)"
      by (metis last_in_set list.distinct(1) list_all_iff)
    moreover have "\<not> list_all is_digit cs" if "cs \<noteq> []"
      using that nd by (metis last_ConsR last_in_set list_all_iff)
    ultimately show ?thesis
      by (auto simp add: s big_SetString_def scan_abs_def)
  qed
qed

lemma exceeds_skipped_untrimmed:
  assumes "TrimSpace L (InitialSupply c) \<noteq> InitialSupply c
           \<or> TrimSpace L (MaxSupply c) \<noteq> MaxSupply c"
  shows "msg_exceeds \<notin> set (Validate_errs L c)"
  using assms by (auto simp: exceeds_iff dest: big_SetString_untrimmed)

text \<open>
  Claim C9. There are inputs whose initial supply is numerically greater than the maximum
  supply and which \<open>Validate\<close> accepts. With \<open>InitialSupply = " 9 "\<close> and
  \<open>MaxSupply = "1"\<close>: the check of the field passes (the string is trimmed to \<open>9\<close> before
  it is matched), \<open>SetString\<close> fails on the untrimmed string while the numbers are 9 and 1,
  and \<open>Validate\<close> returns no error and leaves the configuration as it is.
\<close>

theorem Validate_accepts_padded_supply:
  "validateSupplyString L (str '' 9 '') = None
   \<and> TrimSpace L (str '' 9 '') = str ''9''
   \<and> big_SetString (str '' 9 '') = None
   \<and> big_SetString (str ''9'') = Some 9
   \<and> big_SetString (str ''1'') = Some 1
   \<and> Validate L (baseConfig\<lparr>InitialSupply := str '' 9 '', MaxSupply := str ''1''\<rparr>)
       = (baseConfig\<lparr>InitialSupply := str '' 9 '', MaxSupply := str ''1''\<rparr>, None)"
  by (simp add: prod_eq_iff eval_defs)

section \<open>File names\<close>

lemma valid_name_ascii: "validNameRe s \<Longrightarrow> list_all (\<lambda>r. r < 128) s"
  by (auto simp: validNameRe_def name_class_def list_all_iff)

text \<open>
  Claim C8. For every configuration, \<open>SafeName\<close> has as many characters as the name; each
  character of the name that is a letter or a digit (\<open>unicode.IsLetter\<close>,
  \<open>unicode.IsDigit\<close>) is kept at its place and every other character is replaced by an
  underscore (character 95). \<open>ContractFileName\<close> is \<open>SafeName\<close> followed by \<open>.sol\<close>.
  Characters are runes, the units \<open>strings.Map\<close> works on; for a name of ASCII characters
  (every name that passes \<open>Validate\<close> is one) the length in characters is the length in
  bytes.
\<close>

theorem SafeName_characters:
  "length (SafeName L c) = length (Name c)
   \<and> (\<forall>i < length (Name c).
        SafeName L c ! i =
          (if unicode_IsLetter L (Name c ! i) \<or> unicode_IsDigit L (Name c ! i)
           then Name c ! i else 95))
   \<and> ContractFileName L c = SafeName L c @ str ''.sol''"
  by (simp add: SafeName_def ContractFileName_def strings_Map_def)

theorem SafeName_characters_witness:
  "(2::nat) < length (Name (baseConfig\<lparr>Name := str ''My Token''\<rparr>))
   \<and> (\<forall>L. SafeName L (baseConfig\<lparr>Name := str ''My Token''\<rparr>) ! 2 = 95
          \<and> length (SafeName L (baseConfig\<lparr>Name := str ''My Token''\<rparr>)) = 8
          \<and> ContractFileName L (baseConfig\<lparr>Name := str ''My Token''\<rparr>) = str ''My_Token.sol'')"
proof -
  have n: "Name (baseConfig\<lparr>Name := str ''My Token''\<rparr>) = str ''My Token''"
    by simp
  have s: "SafeName L (baseConfig\<lparr>Name := str ''My Token''\<rparr>) = str ''My_Token''" for L
    by (simp add: SafeName_def strings_Map_def unicode_IsLetter_def unicode_IsDigit_def str_def)
  have "SafeName L (baseConfig\<lparr>Name := str ''My Token''\<rparr>) ! 2 = 95
          \<and> length (SafeName L (baseConfig\<lparr>Name := str ''My Token''\<rparr>)) = 8
          \<and> ContractFileName L (baseConfig\<lparr>Name := str ''My Token''\<rparr>) = str ''My_Token.sol''" for L
    using SafeName_characters [of L "baseConfig\<lparr>Name := str ''My Token''\<rparr>"]
    by (simp add: n s) (simp add: str_def)
  then show ?thesis by (simp add: str_def)
qed

end
